theory Spec2Isabelle
  imports Complex_Main
begin

section \<open>Payment reconciliation and credit ledger of the supplier-matching backend\<close>

text \<open>
  A shallow embedding of the payment controller (checkout webhook, sync-one endpoint),
  of the credit-consuming endpoints (unlock a request, process a match) and of the
  token service. The document stores are lists in insertion order; \<open>findOne\<close> is
  \<open>find\<close> on that list. Store writes are taken to succeed (schema validation and
  connection failures are not part of the model), outbound e-mail has no effect on the
  stores and is left out, and free-text fields (notes, summaries, explanations) are
  left out of the records.
\<close>

subsection \<open>JavaScript values\<close>

text \<open>A string that may be \<open>undefined\<close>/\<open>null\<close>; the empty string is falsy as well.\<close>

definition truthy :: "string option \<Rightarrow> bool" where
  "truthy x = (case x of None \<Rightarrow> False | Some s \<Rightarrow> s \<noteq> [])"

text \<open>\<open>a || b\<close> on optional strings.\<close>

definition js_or :: "string option \<Rightarrow> string option \<Rightarrow> string option" where
  "js_or a b = (if truthy a then a else b)"

definition lower_char :: "char \<Rightarrow> char" where
  "lower_char c = (let n = (of_char c :: nat) in if 65 \<le> n \<and> n \<le> 90 then char_of (n + 32) else c)"

definition toLowerCase :: "string \<Rightarrow> string" where
  "toLowerCase s = map lower_char s"

definition is_space :: "char \<Rightarrow> bool" where
  "is_space c = (let n = (of_char c :: nat) in n = 32 \<or> (9 \<le> n \<and> n \<le> 13) \<or> n = 160)"

definition trim :: "string \<Rightarrow> string" where
  "trim s = rev (dropWhile is_space (rev (dropWhile is_space s)))"

text \<open>\<open>email.toLowerCase().trim()\<close>\<close>

definition norm_email :: "string \<Rightarrow> string" where
  "norm_email e = trim (toLowerCase e)"

text \<open>
  \<open>parseInt\<close> on a decimal string: leading white space, an optional sign, then the
  longest prefix of digits; \<open>None\<close> is \<open>NaN\<close>.
\<close>

definition is_digit :: "char \<Rightarrow> bool" where
  "is_digit c = (let n = (of_char c :: nat) in 48 \<le> n \<and> n \<le> 57)"

definition digits_value :: "string \<Rightarrow> int" where
  "digits_value ds = foldl (\<lambda>acc c. 10 * acc + (int (of_char c) - 48)) 0 ds"

definition parseInt :: "string \<Rightarrow> int option" where
  "parseInt s =
     (let t = dropWhile is_space s;
          neg = (t \<noteq> [] \<and> hd t = CHR ''-'');
          u = (if t \<noteq> [] \<and> (hd t = CHR ''-'' \<or> hd t = CHR ''+'') then tl t else t);
          ds = takeWhile is_digit u
      in if ds = [] then None
         else Some (if neg then - digits_value ds else digits_value ds))"

subsection \<open>Dates\<close>

text \<open>
  A \<open>Date\<close> as its calendar fields (months count from 0 as in JavaScript, \<open>tod\<close> is
  the time of day in milliseconds). The server's time zone is taken to have no
  daylight-saving shifts, so that the fields determine the instant.
\<close>

record date =
  year :: int
  month :: nat
  day :: nat
  tod :: nat

definition is_leap :: "int \<Rightarrow> bool" where
  "is_leap y = (y mod 4 = 0 \<and> (y mod 100 \<noteq> 0 \<or> y mod 400 = 0))"

definition days_in_month :: "int \<Rightarrow> nat \<Rightarrow> nat" where
  "days_in_month y m =
     (if m = 1 then (if is_leap y then 29 else 28)
      else if m = 3 \<or> m = 5 \<or> m = 8 \<or> m = 10 then 30 else 31)"

lemma days_in_month_pos: "0 < days_in_month y m"
  by (simp add: days_in_month_def)

text \<open>
  \<open>MakeDay(year, month, date)\<close> of the language standard on a month in range: a day
  past the end of the month runs over into the following months.
\<close>

function make_day :: "int \<Rightarrow> nat \<Rightarrow> nat \<Rightarrow> int \<times> nat \<times> nat" where
  "make_day y m d =
     (if d \<le> days_in_month y m then (y, m, d)
      else if m = 11 then make_day (y + 1) 0 (d - days_in_month y m)
      else make_day y (m + 1) (d - days_in_month y m))"
  by pat_completeness auto
termination
  by (relation "measure (\<lambda>(y, m, d). d)") (auto simp: days_in_month_def)

declare make_day.simps [simp del]

text \<open>\<open>d.setMonth(d.getMonth() + 1)\<close>\<close>

definition setMonth_next :: "date \<Rightarrow> date" where
  "setMonth_next d =
     (let (y, m) = (if month d + 1 \<ge> 12 then (year d + 1, month d + 1 - 12) else (year d, month d + 1));
          (y', m', d') = make_day y m (day d)
      in d\<lparr>year := y', month := m', day := d'\<rparr>)"

text \<open>\<open>d.setFullYear(d.getFullYear() + 1)\<close>\<close>

definition setFullYear_next :: "date \<Rightarrow> date" where
  "setFullYear_next d =
     (let (y', m', d') = make_day (year d + 1) (month d) (day d)
      in d\<lparr>year := y', month := m', day := d'\<rparr>)"

text \<open>\<open>a > b\<close> on dates.\<close>

definition date_gt :: "date \<Rightarrow> date \<Rightarrow> bool" where
  "date_gt a b =
     (year a > year b \<or> (year a = year b \<and>
       (month a > month b \<or> (month a = month b \<and>
         (day a > day b \<or> (day a = day b \<and> tod a > tod b))))))"

subsection \<open>Documents and stores\<close>

text \<open>Object ids are numbers; a fresh id is one past the largest id in use.\<close>

type_synonym oid = nat

definition fresh_id :: "oid list \<Rightarrow> oid" where
  "fresh_id ids = Suc (fold max ids 0)"

datatype sub_status = SubNone | SubActive | SubExpired | SubCanceled

record user =
  u_id :: oid
  u_email :: string
  isVerified :: bool
  subscriptionStatus :: sub_status
  subscriptionPlan :: "string option"
  subscriptionExpiresAt :: "date option"
  u_stripeCustomerId :: "string option"
  u_stripeSubscriptionId :: "string option"
  matchCredits :: int

datatype pay_status = Pending | Succeeded | Failed | Canceled

record payment =
  p_id :: oid
  p_requestId :: "oid option"
  p_matchReportId :: "oid option"
  p_email :: string
  p_stripePaymentIntentId :: "string option"
  p_stripeSessionId :: "string option"
  p_stripeCustomerId :: "string option"
  p_stripeSubscriptionId :: "string option"
  p_amount :: rat
  p_planType :: string
  p_status :: pay_status
  p_paidAt :: "date option"

datatype report_status = RPending | RCompleted | RPaid | RUnlocked

record supplier_entry =
  e_supplierId :: oid
  e_matchScore :: int
  e_ranking :: nat

record match_report =
  r_id :: oid
  r_requestId :: oid
  r_email :: "string option"
  r_status :: report_status
  r_matchedCount :: nat
  r_matchScore :: int
  r_previewSupplier :: "oid option"
  r_suppliers :: "supplier_entry list"
  r_generatedAt :: "date option"
  r_paymentId :: "oid option"
  r_unlockedAt :: "date option"

datatype tx_type = Deducted | Added | Expired

datatype tx_reason = MatchGeneration | UnlockRequest | SubscriptionAllocation | TopUp | Rollover

record credit_tx =
  t_userId :: oid
  t_requestId :: "oid option"
  t_matchReportId :: "oid option"
  t_email :: string
  creditsUsed :: int
  creditsBefore :: int
  creditsAfter :: int
  transactionType :: tx_type
  reason :: tx_reason

datatype request_status = BPending | BProcessing | BCompleted | BPendingPayment

record buyer_request =
  b_id :: oid
  b_email :: string
  b_status :: request_status

record managed_service =
  m_id :: oid
  m_userId :: "oid option"
  m_email :: string
  m_status :: string
  m_stage :: string
  serviceFeeAmount :: rat
  serviceFeeStatus :: string
  serviceFeePaymentId :: "string option"
  serviceFeePaidAt :: "date option"
  savingsFeeAmount :: rat
  savingsFeeStatus :: string
  savingsFeePaymentId :: "string option"
  savingsFeePaidAt :: "date option"

record db =
  users :: "user list"
  payments :: "payment list"
  reports :: "match_report list"
  ledger :: "credit_tx list"
  requests :: "buyer_request list"
  managed :: "managed_service list"

text \<open>
  \<open>doc.save()\<close>: a document whose id is in the store replaces the stored one, a
  new document is appended.
\<close>

definition save_user :: "user \<Rightarrow> db \<Rightarrow> db" where
  "save_user u s =
     (if u_id u \<in> set (map u_id (users s))
      then s\<lparr>users := map (\<lambda>x. if u_id x = u_id u then u else x) (users s)\<rparr>
      else s\<lparr>users := users s @ [u]\<rparr>)"

definition save_payment :: "payment \<Rightarrow> db \<Rightarrow> db" where
  "save_payment p s =
     (if p_id p \<in> set (map p_id (payments s))
      then s\<lparr>payments := map (\<lambda>x. if p_id x = p_id p then p else x) (payments s)\<rparr>
      else s\<lparr>payments := payments s @ [p]\<rparr>)"

definition save_report :: "match_report \<Rightarrow> db \<Rightarrow> db" where
  "save_report r s =
     (if r_id r \<in> set (map r_id (reports s))
      then s\<lparr>reports := map (\<lambda>x. if r_id x = r_id r then r else x) (reports s)\<rparr>
      else s\<lparr>reports := reports s @ [r]\<rparr>)"

definition save_request :: "buyer_request \<Rightarrow> db \<Rightarrow> db" where
  "save_request b s =
     (if b_id b \<in> set (map b_id (requests s))
      then s\<lparr>requests := map (\<lambda>x. if b_id x = b_id b then b else x) (requests s)\<rparr>
      else s\<lparr>requests := requests s @ [b]\<rparr>)"

definition save_managed :: "managed_service \<Rightarrow> db \<Rightarrow> db" where
  "save_managed m s =
     (if m_id m \<in> set (map m_id (managed s))
      then s\<lparr>managed := map (\<lambda>x. if m_id x = m_id m then m else x) (managed s)\<rparr>
      else s\<lparr>managed := managed s @ [m]\<rparr>)"

text \<open>\<open>CreditTransaction.create\<close>\<close>

definition create_tx :: "credit_tx \<Rightarrow> db \<Rightarrow> db" where
  "create_tx t s = s\<lparr>ledger := ledger s @ [t]\<rparr>"

definition find_user_by_email :: "db \<Rightarrow> string \<Rightarrow> user option" where
  "find_user_by_email s e = find (\<lambda>u. u_email u = e) (users s)"

definition find_report_by_request :: "db \<Rightarrow> oid \<Rightarrow> match_report option" where
  "find_report_by_request s rid = find (\<lambda>r. r_requestId r = rid) (reports s)"

definition find_report_by_id :: "db \<Rightarrow> oid option \<Rightarrow> match_report option" where
  "find_report_by_id s i = (case i of None \<Rightarrow> None | Some k \<Rightarrow> find (\<lambda>r. r_id r = k) (reports s))"

definition find_request_by_id :: "db \<Rightarrow> oid \<Rightarrow> buyer_request option" where
  "find_request_by_id s rid = find (\<lambda>b. b_id b = rid) (requests s)"

definition find_managed_by_id :: "db \<Rightarrow> oid \<Rightarrow> managed_service option" where
  "find_managed_by_id s i = find (\<lambda>m. m_id m = i) (managed s)"

text \<open>The defaults of the \<open>User\<close> schema.\<close>

definition new_user :: "db \<Rightarrow> string \<Rightarrow> user" where
  "new_user s e =
     \<lparr>u_id = fresh_id (map u_id (users s)), u_email = e, isVerified = False,
      subscriptionStatus = SubNone, subscriptionPlan = None, subscriptionExpiresAt = None,
      u_stripeCustomerId = None, u_stripeSubscriptionId = None, matchCredits = 0\<rparr>"

text \<open>The user of an e-mail address, or a new one (not yet stored) when there is none.\<close>

definition find_or_new_user :: "db \<Rightarrow> string \<Rightarrow> user" where
  "find_or_new_user s e = (case find_user_by_email s e of None \<Rightarrow> new_user s e | Some x \<Rightarrow> x)"

text \<open>A pending report as the handlers create it for a request that has none.\<close>

definition new_pending_report :: "db \<Rightarrow> oid \<Rightarrow> string \<Rightarrow> match_report" where
  "new_pending_report s rid e =
     \<lparr>r_id = fresh_id (map r_id (reports s)), r_requestId = rid, r_email = Some e,
      r_status = RPending, r_matchedCount = 0, r_matchScore = 0, r_previewSupplier = None,
      r_suppliers = [], r_generatedAt = None, r_paymentId = None, r_unlockedAt = None\<rparr>"

subsection \<open>Plans and the entitlement rules\<close>

text \<open>
  The \<open>Plan\<close> collection is a parameter: the model is not among the sources, the
  controller reads \<open>planType\<close>, \<open>isActive\<close>, \<open>credits\<close> and \<open>maxRolloverCredits\<close>.
\<close>

record plan =
  pl_planType :: string
  pl_isActive :: bool
  pl_credits :: int
  pl_maxRolloverCredits :: int

definition isSubscriptionPlan :: "string \<Rightarrow> bool" where
  "isSubscriptionPlan planType =
     (planType \<in> set [''starter_monthly'', ''starter_annual'', ''professional_monthly'', ''professional_annual''])"

text \<open>\<open>planType.split("_")[0]\<close> when the name has an underscore.\<close>

definition dbPlanType :: "string \<Rightarrow> string" where
  "dbPlanType planType =
     (if CHR ''_'' \<in> set planType then takeWhile (\<lambda>c. c \<noteq> CHR ''_'') planType else planType)"

definition find_plan :: "plan list \<Rightarrow> string \<Rightarrow> plan option" where
  "find_plan plans planType =
     find (\<lambda>p. pl_planType p = dbPlanType planType \<and> pl_isActive p) plans"

definition getCreditsForPlan :: "plan list \<Rightarrow> string \<Rightarrow> int" where
  "getCreditsForPlan plans planType =
     (case find_plan plans planType of
        Some p \<Rightarrow> pl_credits p
      | None \<Rightarrow>
          if planType = ''starter_monthly'' \<or> planType = ''starter_annual'' then 5
          else if planType = ''professional_monthly'' \<or> planType = ''professional_annual'' then 15
          else 0)"

definition getMaxRolloverCredits :: "plan list \<Rightarrow> string \<Rightarrow> int" where
  "getMaxRolloverCredits plans planType =
     (case find_plan plans planType of
        Some p \<Rightarrow> pl_maxRolloverCredits p
      | None \<Rightarrow>
          if planType = ''professional_monthly'' \<or> planType = ''professional_annual'' then 3
          else 0)"

text \<open>
  The credit allocation that each subscription path repeats: roll over up to the cap
  when the plan has one and the account holds credits, else reset to the plan's grant.
\<close>

definition allocate_credits :: "plan list \<Rightarrow> string \<Rightarrow> int \<Rightarrow> int" where
  "allocate_credits plans planType currentCredits =
     (let creditsForPlan = getCreditsForPlan plans planType;
          maxRollover = getMaxRolloverCredits plans planType
      in if maxRollover > 0 \<and> currentCredits > 0
         then creditsForPlan + min currentCredits maxRollover
         else creditsForPlan)"

text \<open>The expiry that each subscription path repeats; other plan types leave it as it is.\<close>

definition subscription_expiry :: "string \<Rightarrow> date \<Rightarrow> date option \<Rightarrow> date option" where
  "subscription_expiry planType now old =
     (if planType = ''starter_monthly'' \<or> planType = ''professional_monthly''
      then Some (setMonth_next now)
      else if planType = ''starter_annual'' \<or> planType = ''professional_annual''
      then Some (setFullYear_next now)
      else old)"

subsection \<open>Provider events and the environment of a handler\<close>

text \<open>
  A request id in the provider's metadata is the marker \<open>"general"\<close> of a top-up that
  belongs to no request, or an object id.
\<close>

datatype req_ref = General | Req oid

record session =
  s_id :: "string option"
  s_customer_email :: "string option"
  s_amount_total :: "int option"
  s_payment_intent :: "string option"
  s_customer :: "string option"
  s_subscription :: "string option"
  s_client_reference_id :: "req_ref option"
  s_paid :: bool
  md_type :: "string option"
  md_paymentType :: "string option"
  md_requestId :: "req_ref option"
  md_planType :: "string option"
  md_email :: "string option"
  md_quantity :: "string option"

record invoice =
  i_subscription :: "string option"
  i_customer_email :: "string option"

datatype event =
    CheckoutSessionCompleted session
  | PaymentIntentSucceeded
  | InvoicePaymentSucceeded invoice
  | OtherEvent

datatype webhook_request = BadSignature | Verified event

datatype response = Received | ReceivedError | BadRequest | ServerError

text \<open>
  What a handler reads from outside the stores: the clock (one reading per request), the
  plan collection, whether a provider client is configured, the payment intent of a
  subscription's latest invoice (\<open>None\<close> when the lookup fails or finds none), the
  active suppliers, the scores of the matching service and whether that service fails.
\<close>

record env =
  now :: date
  plans :: "plan list"
  stripe :: bool
  invoice_payment_intent :: "string \<Rightarrow> string option"
  active_suppliers :: "oid list"
  ai_score :: "oid \<Rightarrow> oid \<Rightarrow> int"
  ai_fails :: bool

subsection \<open>Webhook: locating or creating the payment record\<close>

datatype pay_cond = CondGeneralTopUp | CondRequest oid

definition cond_of :: "req_ref \<Rightarrow> pay_cond" where
  "cond_of r = (case r of General \<Rightarrow> CondGeneralTopUp | Req i \<Rightarrow> CondRequest i)"

definition matches_cond :: "payment \<Rightarrow> pay_cond \<Rightarrow> bool" where
  "matches_cond p c =
     (case c of
        CondGeneralTopUp \<Rightarrow> p_requestId p = None \<and> p_planType p = ''extra_credit''
      | CondRequest i \<Rightarrow> p_requestId p = Some i)"

definition searchConditions :: "session \<Rightarrow> pay_cond list" where
  "searchConditions ses =
     (case md_requestId ses of None \<Rightarrow> [] | Some r \<Rightarrow> [cond_of r]) @
     (case s_client_reference_id ses of None \<Rightarrow> [] | Some r \<Rightarrow> [cond_of r])"

definition find_session_payment :: "db \<Rightarrow> session \<Rightarrow> payment option" where
  "find_session_payment s ses =
     (case (if truthy (s_id ses)
            then find (\<lambda>p. p_stripeSessionId p = s_id ses) (payments s) else None) of
        Some p \<Rightarrow> Some p
      | None \<Rightarrow>
          if searchConditions ses = [] then None
          else find (\<lambda>p. list_ex (matches_cond p) (searchConditions ses)) (payments s))"

definition create_topup_payment :: "db \<Rightarrow> session \<Rightarrow> req_ref \<Rightarrow> payment" where
  "create_topup_payment s ses ref =
     \<lparr>p_id = fresh_id (map p_id (payments s)),
      p_requestId = (case ref of General \<Rightarrow> None | Req i \<Rightarrow> Some i),
      p_matchReportId =
        (case ref of General \<Rightarrow> None
         | Req i \<Rightarrow> map_option r_id (find_report_by_request s i)),
      p_email =
        norm_email (case js_or (s_customer_email ses) (md_email ses) of
                      None \<Rightarrow> [] | Some e \<Rightarrow> e),
      p_stripePaymentIntentId = None,
      p_stripeSessionId = s_id ses,
      p_stripeCustomerId = None,
      p_stripeSubscriptionId = None,
      p_amount = (case s_amount_total ses of None \<Rightarrow> 0 | Some a \<Rightarrow> of_int a / 100),
      p_planType = ''extra_credit'',
      p_status = Pending,
      p_paidAt = None\<rparr>"

text \<open>
  A regular payment is rebuilt only when the request has a report; a failing lookup
  (the marker \<open>"general"\<close> is no object id, no e-mail is known) is caught and leaves
  no payment.
\<close>

definition create_regular_payment :: "env \<Rightarrow> db \<Rightarrow> session \<Rightarrow> req_ref \<Rightarrow> payment option" where
  "create_regular_payment ev s ses ref =
     (case ref of
        General \<Rightarrow> None
      | Req i \<Rightarrow>
          (case find_report_by_request s i of
             None \<Rightarrow> None
           | Some mr \<Rightarrow>
               (case js_or (js_or (s_customer_email ses) (md_email ses)) (r_email mr) of
                  None \<Rightarrow> None
                | Some e \<Rightarrow>
                    Some \<lparr>p_id = fresh_id (map p_id (payments s)),
                          p_requestId = Some i,
                          p_matchReportId = Some (r_id mr),
                          p_email = norm_email e,
                          p_stripePaymentIntentId =
                            (if truthy (s_subscription ses) \<and> \<not> truthy (s_payment_intent ses) \<and> stripe ev
                             then (case invoice_payment_intent ev (the (s_subscription ses)) of
                                     None \<Rightarrow> s_payment_intent ses
                                   | Some k \<Rightarrow> if k \<noteq> [] then Some k else s_payment_intent ses)
                             else s_payment_intent ses),
                          p_stripeSessionId = None,
                          p_stripeCustomerId = s_customer ses,
                          p_stripeSubscriptionId = s_subscription ses,
                          p_amount =
                            (case s_amount_total ses of
                               None \<Rightarrow> 0
                             | Some a \<Rightarrow> if a \<noteq> 0 then of_int a / 100 else 0),
                          p_planType =
                            (case js_or (md_planType ses) (Some ''one-time'') of
                               None \<Rightarrow> ''one-time'' | Some t \<Rightarrow> t),
                          p_status = Succeeded,
                          p_paidAt = Some (now ev)\<rparr>)))"

text \<open>The provider ids of the session are copied and the payment is marked succeeded.\<close>

definition mark_succeeded :: "env \<Rightarrow> session \<Rightarrow> payment \<Rightarrow> payment" where
  "mark_succeeded ev ses p =
     (let p1 = (if truthy (s_payment_intent ses)
                then p\<lparr>p_stripePaymentIntentId := s_payment_intent ses\<rparr> else p);
          p2 = (if truthy (s_customer ses)
                then p1\<lparr>p_stripeCustomerId := s_customer ses\<rparr> else p1);
          p3 = (if truthy (s_subscription ses)
                then (let q = p2\<lparr>p_stripeSubscriptionId := s_subscription ses\<rparr>
                      in if \<not> truthy (p_stripePaymentIntentId q) \<and> stripe ev
                         then (case invoice_payment_intent ev (the (s_subscription ses)) of
                                 None \<Rightarrow> q
                               | Some k \<Rightarrow>
                                   if k \<noteq> [] then q\<lparr>p_stripePaymentIntentId := Some k\<rparr> else q)
                         else q)
                else p2)
      in p3\<lparr>p_status := Succeeded,
            p_paidAt := (case p_paidAt p3 of None \<Rightarrow> Some (now ev) | Some d \<Rightarrow> Some d)\<rparr>)"

subsection \<open>Automatic match generation\<close>

text \<open>\<open>Math.round\<close>\<close>

definition js_round :: "rat \<Rightarrow> int" where
  "js_round x = \<lfloor>x + 1 / 2\<rfloor>"

text \<open>
  Scores of all active suppliers, sorted by score (highest first, the sort is stable),
  those with a positive score, the first five.
\<close>

definition topSuppliers :: "env \<Rightarrow> oid \<Rightarrow> (oid \<times> int) list" where
  "topSuppliers ev rid =
     take 5 (filter (\<lambda>x. snd x > 0)
       (sort_key (\<lambda>x. - snd x) (map (\<lambda>sp. (sp, ai_score ev rid sp)) (active_suppliers ev))))"

definition averageScore :: "(oid \<times> int) list \<Rightarrow> int" where
  "averageScore tops = js_round (of_int (sum_list (map snd tops)) / of_nat (length tops))"

definition ranked :: "(oid \<times> int) list \<Rightarrow> supplier_entry list" where
  "ranked tops =
     map (\<lambda>(i, x). \<lparr>e_supplierId = fst x, e_matchScore = snd x, e_ranking = i + 1\<rparr>)
       (enumerate 0 tops)"

text \<open>
  The generation that follows a top-up unlock: one more credit is deducted and the
  report is completed, unless the matching service fails or no supplier qualifies.
\<close>

definition auto_generate :: "env \<Rightarrow> user \<Rightarrow> oid \<Rightarrow> buyer_request \<Rightarrow> match_report \<Rightarrow> db \<Rightarrow> db" where
  "auto_generate ev u rid br mr s =
     (if ai_fails ev then s
      else if active_suppliers ev = [] then s
      else (let tops = topSuppliers ev rid
            in if tops = [] then s
               else (let u' = u\<lparr>matchCredits := matchCredits u - 1\<rparr>;
                         s1 = save_user u' s;
                         s2 = create_tx
                                \<lparr>t_userId = u_id u, t_requestId = Some rid,
                                 t_matchReportId = Some (r_id mr), t_email = u_email u,
                                 creditsUsed = 1, creditsBefore = matchCredits u,
                                 creditsAfter = matchCredits u', transactionType = Deducted,
                                 reason = MatchGeneration\<rparr> s1;
                         s3 = save_report
                                (mr\<lparr>r_status := RCompleted,
                                    r_matchedCount := length tops,
                                    r_matchScore := averageScore tops,
                                    r_previewSupplier := Some (fst (hd tops)),
                                    r_suppliers := ranked tops,
                                    r_generatedAt := Some (now ev)\<rparr>) s2
                     in save_request (br\<lparr>b_status := BProcessing\<rparr>) s3)))"

definition hasActivePlan :: "env \<Rightarrow> user \<Rightarrow> bool" where
  "hasActivePlan ev u =
     (subscriptionStatus u = SubActive \<and>
      (case subscriptionExpiresAt u of None \<Rightarrow> True | Some d \<Rightarrow> date_gt d (now ev)))"

subsection \<open>Credit top-up\<close>

text \<open>The quantity of the metadata, or one credit per 10 dollars paid.\<close>

definition creditsToAdd :: "session \<Rightarrow> payment \<Rightarrow> int" where
  "creditsToAdd ses p =
     (case (if truthy (md_quantity ses) then parseInt (the (md_quantity ses)) else None) of
        None \<Rightarrow> \<lfloor>p_amount p / 10\<rfloor>
      | Some q \<Rightarrow> if q \<noteq> 0 then q else \<lfloor>p_amount p / 10\<rfloor>)"

text \<open>
  Unlocking the request of a top-up: the report is found or created, one credit is
  deducted when the balance is positive, the report is unlocked, and a verified user
  with an active plan and credits left gets the match generated at once. The sync
  endpoint (\<open>link\<close>) also stores the report's id in a payment that has none.
\<close>

definition unlock_after_topup ::
  "env \<Rightarrow> bool \<Rightarrow> user \<Rightarrow> payment \<Rightarrow> oid \<Rightarrow> db \<Rightarrow> db" where
  "unlock_after_topup ev link u p rid s =
     (case find_request_by_id s rid of
        None \<Rightarrow> s
      | Some br \<Rightarrow>
          (let (mr, s1) =
                 (case find_report_by_request s rid of
                    Some r \<Rightarrow> (r, s)
                  | None \<Rightarrow>
                      (let r = new_pending_report s rid (b_email br) in (r, save_report r s)));
               (u1, s2) =
                 (if matchCredits u > 0
                  then (let u' = u\<lparr>matchCredits := matchCredits u - 1\<rparr>
                        in (u', create_tx
                                  \<lparr>t_userId = u_id u, t_requestId = Some rid,
                                   t_matchReportId = Some (r_id mr), t_email = u_email u,
                                   creditsUsed = 1, creditsBefore = matchCredits u,
                                   creditsAfter = matchCredits u', transactionType = Deducted,
                                   reason = UnlockRequest\<rparr> (save_user u' s1)))
                  else (u, s1));
               mr1 = mr\<lparr>r_status := RUnlocked, r_paymentId := Some (p_id p),
                         r_unlockedAt := Some (now ev)\<rparr>;
               s3 = save_report mr1 s2;
               s4 = (if link \<and> p_matchReportId p = None
                     then save_payment (p\<lparr>p_matchReportId := Some (r_id mr)\<rparr>) s3 else s3)
           in if isVerified u1 \<and> hasActivePlan ev u1 \<and> matchCredits u1 > 0
              then auto_generate ev u1 rid br mr1 s4
              else s4))"

text \<open>
  The credits of a top-up: the user is found by the payment's e-mail or created, the
  credits are added with one ledger entry, and a payment tied to a request unlocks it.
\<close>

definition process_topup :: "env \<Rightarrow> bool \<Rightarrow> session \<Rightarrow> payment \<Rightarrow> db \<Rightarrow> db" where
  "process_topup ev link ses p s =
     (let userEmail = norm_email (p_email p);
          u = find_or_new_user s userEmail;
          u1 = u\<lparr>matchCredits := matchCredits u + creditsToAdd ses p\<rparr>;
          s1 = save_user u1 s;
          s2 = create_tx
                 \<lparr>t_userId = u_id u, t_requestId = p_requestId p,
                  t_matchReportId = p_matchReportId p, t_email = u_email u,
                  creditsUsed = creditsToAdd ses p, creditsBefore = matchCredits u,
                  creditsAfter = matchCredits u1, transactionType = Added, reason = TopUp\<rparr> s1
      in case p_requestId p of
           None \<Rightarrow> s2
         | Some rid \<Rightarrow> unlock_after_topup ev link u1 p rid s2)"

subsection \<open>Standard purchase\<close>

definition unlock_report_of :: "env \<Rightarrow> payment \<Rightarrow> db \<Rightarrow> db" where
  "unlock_report_of ev p s =
     (case find_report_by_id s (p_matchReportId p) of
        None \<Rightarrow> s
      | Some mr \<Rightarrow>
          save_report (mr\<lparr>r_status := RUnlocked, r_paymentId := Some (p_id p),
                          r_unlockedAt := Some (now ev)\<rparr>) s)"

text \<open>
  The subscription of the webhook: the user is found by e-mail or created, activated,
  given the plan's credits (one ledger entry) and the new expiry.
\<close>

definition activate_subscription :: "env \<Rightarrow> session \<Rightarrow> payment \<Rightarrow> db \<Rightarrow> db" where
  "activate_subscription ev ses p s =
     (let userEmail = norm_email (p_email p);
          u = find_or_new_user s userEmail;
          u1 = u\<lparr>subscriptionStatus := SubActive, subscriptionPlan := Some (p_planType p),
                 u_stripeCustomerId := s_customer ses,
                 u_stripeSubscriptionId := s_subscription ses\<rparr>;
          u2 = u1\<lparr>matchCredits := allocate_credits (plans ev) (p_planType p) (matchCredits u1)\<rparr>;
          s1 = create_tx
                 \<lparr>t_userId = u_id u, t_requestId = None, t_matchReportId = None,
                  t_email = u_email u, creditsUsed = matchCredits u2 - matchCredits u1,
                  creditsBefore = matchCredits u1, creditsAfter = matchCredits u2,
                  transactionType = Added, reason = SubscriptionAllocation\<rparr> s;
          u3 = u2\<lparr>subscriptionExpiresAt :=
                    subscription_expiry (p_planType p) (now ev) (subscriptionExpiresAt u2)\<rparr>
      in save_user u3 s1)"

definition standard_purchase :: "env \<Rightarrow> session \<Rightarrow> payment \<Rightarrow> db \<Rightarrow> db" where
  "standard_purchase ev ses p s =
     (let s1 = unlock_report_of ev p s
      in if isSubscriptionPlan (p_planType p) then activate_subscription ev ses p s1 else s1)"

subsection \<open>Managed-service fees\<close>

text \<open>\<open>(session.customer_email || managedService.email).toLowerCase().trim()\<close>\<close>

definition customer_email :: "session \<Rightarrow> managed_service \<Rightarrow> string" where
  "customer_email ses ms =
     norm_email (if truthy (s_customer_email ses) then the (s_customer_email ses) else m_email ms)"

definition managed_service_fee :: "env \<Rightarrow> session \<Rightarrow> db \<Rightarrow> db \<times> response" where
  "managed_service_fee ev ses s =
     (case md_requestId ses of
        None \<Rightarrow> (s, ReceivedError)
      | Some General \<Rightarrow> (s, ServerError)
      | Some (Req i) \<Rightarrow>
          (case find_managed_by_id s i of
             None \<Rightarrow> (s, ReceivedError)
           | Some ms \<Rightarrow>
               (let customerEmail = customer_email ses ms;
                    u = (find_or_new_user s customerEmail)\<lparr>isVerified := True\<rparr>;
                    s1 = save_user u s;
                    ms1 = (if m_userId ms \<noteq> Some (u_id u)
                           then ms\<lparr>m_userId := Some (u_id u)\<rparr> else ms);
                    ms2 = ms1\<lparr>serviceFeeStatus := ''paid'',
                               serviceFeePaymentId := s_payment_intent ses,
                               serviceFeePaidAt := Some (now ev),
                               m_status := ''in_progress'', m_stage := ''review''\<rparr>;
                    s2 = save_managed ms2 s1;
                    pay = \<lparr>p_id = fresh_id (map p_id (payments s2)),
                           p_requestId = Some (m_id ms), p_matchReportId = None,
                           p_email = customerEmail,
                           p_stripePaymentIntentId = s_payment_intent ses,
                           p_stripeSessionId = None,
                           p_stripeCustomerId = s_customer ses,
                           p_stripeSubscriptionId = None,
                           p_amount = serviceFeeAmount ms,
                           p_planType = ''managed_service'',
                           p_status = Succeeded, p_paidAt = Some (now ev)\<rparr>
                in (save_payment pay s2, Received))))"

definition managed_service_savings_fee :: "env \<Rightarrow> session \<Rightarrow> db \<Rightarrow> db \<times> response" where
  "managed_service_savings_fee ev ses s =
     (case md_requestId ses of
        None \<Rightarrow> (s, ReceivedError)
      | Some General \<Rightarrow> (s, ServerError)
      | Some (Req i) \<Rightarrow>
          (case find_managed_by_id s i of
             None \<Rightarrow> (s, ReceivedError)
           | Some ms \<Rightarrow>
               (let customerEmail = customer_email ses ms;
                    ms1 = ms\<lparr>savingsFeeStatus := ''paid'',
                              savingsFeePaymentId := s_payment_intent ses,
                              savingsFeePaidAt := Some (now ev)\<rparr>;
                    s1 = save_managed ms1 s;
                    pay = \<lparr>p_id = fresh_id (map p_id (payments s1)),
                           p_requestId = Some (m_id ms), p_matchReportId = None,
                           p_email = customerEmail,
                           p_stripePaymentIntentId = s_payment_intent ses,
                           p_stripeSessionId = None,
                           p_stripeCustomerId = s_customer ses,
                           p_stripeSubscriptionId = None,
                           p_amount = savingsFeeAmount ms,
                           p_planType = ''managed_service_savings_fee'',
                           p_status = Succeeded, p_paidAt = Some (now ev)\<rparr>
                in (save_payment pay s1, Received))))"

subsection \<open>The webhook handler\<close>

text \<open>
  A regular payment or a top-up. The block that marks the payment succeeded and applies
  its effects stands inside the branch taken when no payment record was found and the
  metadata names a request: a record that was found ends the handling.
\<close>

definition regular_or_topup :: "env \<Rightarrow> session \<Rightarrow> db \<Rightarrow> db \<times> response" where
  "regular_or_topup ev ses s =
     (case find_session_payment s ses of
        Some found \<Rightarrow> (s, Received)
      | None \<Rightarrow>
          (case md_requestId ses of
             None \<Rightarrow> (s, Received)
           | Some ref \<Rightarrow>
               (let (created, s1) =
                      (if md_planType ses = Some ''extra_credit''
                       then (let p = create_topup_payment s ses ref
                             in (Some p, save_payment p s))
                       else (case create_regular_payment ev s ses ref of
                               None \<Rightarrow> (None, s)
                             | Some p \<Rightarrow> (Some p, save_payment p s)))
                in case created of
                     None \<Rightarrow> (s1, Received)
                   | Some p \<Rightarrow>
                       (let p' = mark_succeeded ev ses p;
                            s2 = save_payment p' s1
                        in if p_planType p' = ''extra_credit''
                           then (process_topup ev False ses p' s2, Received)
                           else (standard_purchase ev ses p' s2, Received)))))"

definition checkout_session_completed :: "env \<Rightarrow> session \<Rightarrow> db \<Rightarrow> db \<times> response" where
  "checkout_session_completed ev ses s =
     (if md_type ses = Some ''managed_service'' then managed_service_fee ev ses s
      else if md_type ses = Some ''managed_service_savings_fee'' \<or>
              md_paymentType ses = Some ''savings_fee''
      then managed_service_savings_fee ev ses s
      else regular_or_topup ev ses s)"

text \<open>
  A paid invoice of a subscription: the user is found by the subscription id, else by
  the customer's e-mail; the balance is set to 25 and the status to active.
\<close>

definition find_invoice_user :: "db \<Rightarrow> invoice \<Rightarrow> user option" where
  "find_invoice_user s iv =
     (case find (\<lambda>u. u_stripeSubscriptionId u = i_subscription iv) (users s) of
        Some u \<Rightarrow> Some u
      | None \<Rightarrow>
          if truthy (i_customer_email iv)
          then find_user_by_email s (norm_email (the (i_customer_email iv)))
          else None)"

definition invoice_payment_succeeded :: "invoice \<Rightarrow> db \<Rightarrow> db" where
  "invoice_payment_succeeded iv s =
     (if truthy (i_subscription iv)
      then (case find_invoice_user s iv of
              None \<Rightarrow> s
            | Some u \<Rightarrow> save_user (u\<lparr>matchCredits := 25, subscriptionStatus := SubActive\<rparr>) s)
      else s)"

definition handleWebhook :: "env \<Rightarrow> webhook_request \<Rightarrow> db \<Rightarrow> db \<times> response" where
  "handleWebhook ev req s =
     (case req of
        BadSignature \<Rightarrow> (s, BadRequest)
      | Verified e \<Rightarrow>
          (case e of
             CheckoutSessionCompleted ses \<Rightarrow> checkout_session_completed ev ses s
           | PaymentIntentSucceeded \<Rightarrow> (s, Received)
           | InvoicePaymentSucceeded iv \<Rightarrow> (invoice_payment_succeeded iv s, Received)
           | OtherEvent \<Rightarrow> (s, Received)))"

text \<open>
  A checkout session that is neither a managed-service fee nor a credit top-up: a
  standard purchase (a report unlock or a subscription).
\<close>

definition is_standard_purchase :: "session \<Rightarrow> bool" where
  "is_standard_purchase ses =
     (md_type ses \<noteq> Some ''managed_service'' \<and>
      md_type ses \<noteq> Some ''managed_service_savings_fee'' \<and>
      md_paymentType ses \<noteq> Some ''savings_fee'' \<and>
      md_planType ses \<noteq> Some ''extra_credit'')"


subsection \<open>Sync-one endpoint\<close>

text \<open>
  What the sync endpoint asks the provider: whether a payment intent has succeeded (a
  failing call is caught and reads as not succeeded), a checkout session by its id
  (\<open>None\<close> when the call fails), and the list of recent sessions.
\<close>

record provider =
  intent_succeeded :: "string \<Rightarrow> bool"
  retrieve_session :: "string \<Rightarrow> session option"
  list_sessions :: "session list"

datatype sync_response =
    PaymentNotFound
  | AlreadyProcessed payment
  | Synced oid
  | NotCompleted payment

text \<open>The latest payment of the request whose e-mail is the user's, letter case aside.\<close>

definition find_sync_payment :: "db \<Rightarrow> oid \<Rightarrow> user \<Rightarrow> payment option" where
  "find_sync_payment s requestId u =
     find (\<lambda>p. p_requestId p = Some requestId \<and>
                toLowerCase (p_email p) = toLowerCase (norm_email (u_email u)))
       (rev (payments s))"

definition unlock_if_locked :: "env \<Rightarrow> payment \<Rightarrow> db \<Rightarrow> db" where
  "unlock_if_locked ev p s =
     (case find_report_by_id s (p_matchReportId p) of
        None \<Rightarrow> s
      | Some mr \<Rightarrow>
          if r_status mr \<noteq> RUnlocked
          then save_report (mr\<lparr>r_status := RUnlocked, r_paymentId := Some (p_id p),
                               r_unlockedAt := Some (now ev)\<rparr>) s
          else s)"

text \<open>
  The subscription step of the sync endpoint works on the authenticated user, the
  document the middleware loaded for the request.
\<close>

definition sync_subscription :: "env \<Rightarrow> session \<Rightarrow> payment \<Rightarrow> user \<Rightarrow> db \<Rightarrow> db" where
  "sync_subscription ev ses p u s =
     (let u1 = u\<lparr>subscriptionStatus := SubActive, subscriptionPlan := Some (p_planType p),
                 u_stripeCustomerId := s_customer ses,
                 u_stripeSubscriptionId := s_subscription ses\<rparr>;
          u2 = u1\<lparr>matchCredits := allocate_credits (plans ev) (p_planType p) (matchCredits u1)\<rparr>;
          s1 = create_tx
                 \<lparr>t_userId = u_id u, t_requestId = None, t_matchReportId = None,
                  t_email = u_email u, creditsUsed = matchCredits u2 - matchCredits u1,
                  creditsBefore = matchCredits u1, creditsAfter = matchCredits u2,
                  transactionType = Added, reason = SubscriptionAllocation\<rparr> s;
          u3 = u2\<lparr>subscriptionExpiresAt :=
                    subscription_expiry (p_planType p) (now ev) (subscriptionExpiresAt u2)\<rparr>
      in save_user u3 s1)"

definition sync_by_intent :: "env \<Rightarrow> provider \<Rightarrow> payment \<Rightarrow> db \<Rightarrow> db \<times> sync_response" where
  "sync_by_intent ev pr p s =
     (if intent_succeeded pr (the (p_stripePaymentIntentId p))
      then (let p' = p\<lparr>p_status := Succeeded, p_paidAt := Some (now ev)\<rparr>
            in (unlock_if_locked ev p' (save_payment p' s), Synced (p_id p)))
      else (s, NotCompleted p))"

definition sync_by_session :: "env \<Rightarrow> provider \<Rightarrow> user \<Rightarrow> payment \<Rightarrow> db \<Rightarrow> db \<times> sync_response" where
  "sync_by_session ev pr u p s =
     (case retrieve_session pr (the (p_stripeSessionId p)) of
        None \<Rightarrow> (s, NotCompleted p)
      | Some ses \<Rightarrow>
          if s_paid ses
          then (let p1 = p\<lparr>p_stripePaymentIntentId := s_payment_intent ses,
                           p_stripeCustomerId := s_customer ses\<rparr>;
                    p2 = (if truthy (s_subscription ses)
                          then p1\<lparr>p_stripeSubscriptionId := s_subscription ses\<rparr> else p1);
                    p3 = p2\<lparr>p_status := Succeeded, p_paidAt := Some (now ev)\<rparr>;
                    s1 = save_payment p3 s;
                    s2 = (if p_planType p3 = ''extra_credit''
                          then process_topup ev True ses p3 s1
                          else unlock_if_locked ev p3 s1);
                    s3 = (if truthy (s_subscription ses)
                          then sync_subscription ev ses p3 u s2 else s2)
                in (s3, Synced (p_id p)))
          else (s, NotCompleted p))"

definition sync_by_listing :: "env \<Rightarrow> provider \<Rightarrow> oid \<Rightarrow> payment \<Rightarrow> db \<Rightarrow> db \<times> sync_response" where
  "sync_by_listing ev pr requestId p s =
     (case find (\<lambda>x. s_client_reference_id x = Some (Req requestId) \<and> s_paid x) (list_sessions pr) of
        None \<Rightarrow> (s, NotCompleted p)
      | Some ms \<Rightarrow>
          if truthy (s_payment_intent ms)
          then (let p' = p\<lparr>p_stripePaymentIntentId := s_payment_intent ms,
                           p_stripeCustomerId := s_customer ms,
                           p_status := Succeeded, p_paidAt := Some (now ev)\<rparr>
                in (unlock_if_locked ev p' (save_payment p' s), Synced (p_id p)))
          else (s, NotCompleted p))"

definition syncPaymentStatus :: "env \<Rightarrow> provider \<Rightarrow> oid \<Rightarrow> user \<Rightarrow> db \<Rightarrow> db \<times> sync_response" where
  "syncPaymentStatus ev pr requestId u s =
     (case find_sync_payment s requestId u of
        None \<Rightarrow> (s, PaymentNotFound)
      | Some p \<Rightarrow>
          if p_status p = Succeeded then (s, AlreadyProcessed p)
          else if stripe ev
          then (if truthy (p_stripePaymentIntentId p) then sync_by_intent ev pr p s
                else if truthy (p_stripeSessionId p) then sync_by_session ev pr u p s
                else sync_by_listing ev pr requestId p s)
          else (s, NotCompleted p))"

subsection \<open>Spending credits: unlocking a request, generating a match\<close>





definition write_report ::
  "env \<Rightarrow> match_report option \<Rightarrow> oid \<Rightarrow> buyer_request \<Rightarrow> report_status \<Rightarrow> (oid \<times> int) list \<Rightarrow> db \<Rightarrow> db" where
  "write_report ev existing i br st tops s =
     (case existing of
        None \<Rightarrow>
          save_report
            \<lparr>r_id = fresh_id (map r_id (reports s)), r_requestId = i, r_email = Some (b_email br),
             r_status = st, r_matchedCount = length tops, r_matchScore = averageScore tops,
             r_previewSupplier = Some (fst (hd tops)), r_suppliers = ranked tops,
             r_generatedAt = Some (now ev), r_paymentId = None, r_unlockedAt = None\<rparr> s
      | Some mr \<Rightarrow>
          save_report
            (mr\<lparr>r_status := st, r_matchedCount := length tops,
                r_matchScore := averageScore tops,
                r_previewSupplier := Some (fst (hd tops)), r_suppliers := ranked tops,
                r_generatedAt := Some (now ev)\<rparr>) s)"


subsection \<open>The ledger as an account of the balance\<close>

text \<open>
  The signed amount of a ledger entry (added credits count up, deducted and expired ones
  down) and the sum over the entries of one user.
\<close>

definition signed_credits :: "credit_tx \<Rightarrow> int" where
  "signed_credits t =
     (case transactionType t of
        Added \<Rightarrow> creditsUsed t | Deducted \<Rightarrow> - creditsUsed t | Expired \<Rightarrow> - creditsUsed t)"

definition ledger_sum :: "oid \<Rightarrow> credit_tx list \<Rightarrow> int" where
  "ledger_sum uid entries = sum_list (map signed_credits (filter (\<lambda>t. t_userId t = uid) entries))"

subsection \<open>Token service\<close>

text \<open>
  Strings are byte strings. \<open>Buffer.toString("base64url")\<close> writes three bytes as four
  characters of the URL-safe alphabet, without padding.
\<close>

definition b64_char :: "nat \<Rightarrow> char" where
  "b64_char i =
     (if i < 26 then char_of (65 + i)
      else if i < 52 then char_of (71 + i)
      else if i < 62 then char_of (i - 4)
      else if i = 62 then CHR ''-'' else CHR ''_'')"

fun bytes_to_sextets :: "nat list \<Rightarrow> nat list" where
  "bytes_to_sextets (a # b # c # r) =
     [a div 4, (a mod 4) * 16 + b div 16, (b mod 16) * 4 + c div 64, c mod 64] @ bytes_to_sextets r"
| "bytes_to_sextets [a, b] = [a div 4, (a mod 4) * 16 + b div 16, (b mod 16) * 4]"
| "bytes_to_sextets [a] = [a div 4, (a mod 4) * 16]"
| "bytes_to_sextets [] = []"

definition base64url_encode :: "string \<Rightarrow> string" where
  "base64url_encode s = map b64_char (bytes_to_sextets (map of_char s))"




record token_payload =
  tp_email :: string
  tp_requestId :: "string option"
  tp_type :: string
  tp_timestamp :: int

text \<open>\<open>JSON.stringify\<close> of the payload object.\<close>

definition hex_digit :: "nat \<Rightarrow> char" where
  "hex_digit n = (if n < 10 then char_of (48 + n) else char_of (87 + n))"

definition json_escape :: "char \<Rightarrow> string" where
  "json_escape c =
     (let n = (of_char c :: nat)
      in if n = 34 then [char_of (92::nat), char_of (34::nat)]
         else if n = 92 then [char_of (92::nat), char_of (92::nat)]
         else if n = 8 then [char_of (92::nat), CHR ''b'']
         else if n = 12 then [char_of (92::nat), CHR ''f'']
         else if n = 10 then [char_of (92::nat), CHR ''n'']
         else if n = 13 then [char_of (92::nat), CHR ''r'']
         else if n = 9 then [char_of (92::nat), CHR ''t'']
         else if n < 32 then [char_of (92::nat), CHR ''u'', CHR ''0'', CHR ''0'',
                              hex_digit (n div 16), hex_digit (n mod 16)]
         else [c])"

definition json_string :: "string \<Rightarrow> string" where
  "json_string s = [char_of (34::nat)] @ concat (map json_escape s) @ [char_of (34::nat)]"

fun digits_of :: "nat \<Rightarrow> string" where
  "digits_of n = (if n < 10 then [char_of (48 + n)] else digits_of (n div 10) @ [char_of (48 + n mod 10)])"

declare digits_of.simps [simp del]

definition json_int :: "int \<Rightarrow> string" where
  "json_int i = (if i < 0 then CHR ''-'' # digits_of (nat (- i)) else digits_of (nat i))"

definition json_stringify :: "token_payload \<Rightarrow> string" where
  "json_stringify p =
     ''{'' @ json_string ''email'' @ '':'' @ json_string (tp_email p) @
     '','' @ json_string ''requestId'' @ '':'' @
       (case tp_requestId p of None \<Rightarrow> ''null'' | Some r \<Rightarrow> json_string r) @
     '','' @ json_string ''type'' @ '':'' @ json_string (tp_type p) @
     '','' @ json_string ''timestamp'' @ '':'' @ json_int (tp_timestamp p) @ ''}''"

text \<open>
  The keyed hash (HMAC-SHA256 under the server's secret, as hexadecimal digits) and
  \<open>JSON.parse\<close> belong to the runtime and are parameters; a parse that throws, or that
  yields no payload object, is \<open>None\<close>.
\<close>

record runtime =
  hmac_hex :: "string \<Rightarrow> string"
  json_parse :: "string \<Rightarrow> token_payload option"


definition generateToken :: "runtime \<Rightarrow> int \<Rightarrow> string \<Rightarrow> string option \<Rightarrow> string \<Rightarrow> string" where
  "generateToken rt date_now email requestId type =
     (let payload = \<lparr>tp_email = norm_email email,
                      tp_requestId = (if truthy requestId then requestId else None),
                      tp_type = type, tp_timestamp = date_now\<rparr>;
          payloadString = json_stringify payload;
          signature = hmac_hex rt payloadString
      in base64url_encode payloadString @ ''.'' @ signature)"



text \<open>\<open>token.split(".")\<close>, of which the first two parts are read.\<close>

definition split_token :: "string \<Rightarrow> string \<times> string option" where
  "split_token token =
     (let payloadBase64 = takeWhile (\<lambda>c. c \<noteq> CHR ''.'') token;
          rest = dropWhile (\<lambda>c. c \<noteq> CHR ''.'') token
      in (payloadBase64,
          if rest = [] then None else Some (takeWhile (\<lambda>c. c \<noteq> CHR ''.'') (tl rest))))"


section \<open>Concrete inputs\<close>

definition ex_now :: date where
  "ex_now = \<lparr>year = 2026, month = 0, day = 15, tod = 0\<rparr>"

definition ex_plans :: "plan list" where
  "ex_plans =
     [\<lparr>pl_planType = ''starter'', pl_isActive = True, pl_credits = 5, pl_maxRolloverCredits = 0\<rparr>,
      \<lparr>pl_planType = ''professional'', pl_isActive = True, pl_credits = 15, pl_maxRolloverCredits = 3\<rparr>]"

definition ex_env :: env where
  "ex_env = \<lparr>now = ex_now, plans = ex_plans, stripe = True,
              invoice_payment_intent = (\<lambda>k. None), active_suppliers = [],
              ai_score = (\<lambda>r sp. 0), ai_fails = False\<rparr>"

text \<open>An account with the given balance, and the store around it: one request with a pending report.\<close>

definition ex_user :: "int \<Rightarrow> user" where
  "ex_user c =
     \<lparr>u_id = 1, u_email = ''a@b.com'', isVerified = False, subscriptionStatus = SubNone,
      subscriptionPlan = None, subscriptionExpiresAt = None, u_stripeCustomerId = None,
      u_stripeSubscriptionId = None, matchCredits = c\<rparr>"

definition ex_report :: match_report where
  "ex_report =
     \<lparr>r_id = 1, r_requestId = 7, r_email = Some ''a@b.com'', r_status = RPending,
      r_matchedCount = 0, r_matchScore = 0, r_previewSupplier = None, r_suppliers = [],
      r_generatedAt = None, r_paymentId = None, r_unlockedAt = None\<rparr>"

definition ex_db :: "int \<Rightarrow> db" where
  "ex_db c =
     \<lparr>users = [ex_user c], payments = [], reports = [ex_report], ledger = [],
      requests = [\<lparr>b_id = 7, b_email = ''a@b.com'', b_status = BPending\<rparr>], managed = []\<rparr>"

text \<open>A paid checkout session of the given plan for request 7.\<close>

definition ex_session :: "string \<Rightarrow> session" where
  "ex_session pt =
     \<lparr>s_id = Some ''cs_1'', s_customer_email = Some ''a@b.com'', s_amount_total = Some 9900,
      s_payment_intent = None, s_customer = Some ''cus_1'', s_subscription = Some ''sub_1'',
      s_client_reference_id = Some (Req 7), s_paid = True, md_type = None,
      md_paymentType = None, md_requestId = Some (Req 7), md_planType = Some pt,
      md_email = None, md_quantity = None\<rparr>"

text \<open>A subscriber with 7 credits and an expiry, and an invoice of the subscription.\<close>

definition ex_subscriber :: user where
  "ex_subscriber =
     \<lparr>u_id = 1, u_email = ''a@b.com'', isVerified = True, subscriptionStatus = SubExpired,
      subscriptionPlan = Some ''starter_monthly'',
      subscriptionExpiresAt = Some \<lparr>year = 2025, month = 11, day = 31, tod = 0\<rparr>,
      u_stripeCustomerId = Some ''cus_1'', u_stripeSubscriptionId = Some ''sub_1'',
      matchCredits = 7\<rparr>"

definition ex_subscriber_db :: db where
  "ex_subscriber_db =
     \<lparr>users = [ex_subscriber], payments = [], reports = [], ledger = [], requests = [],
      managed = []\<rparr>"

definition ex_invoice :: invoice where
  "ex_invoice = \<lparr>i_subscription = Some ''sub_1'', i_customer_email = Some ''a@b.com''\<rparr>"

text \<open>
  The payment record that checkout-session creation stores for session \<open>cs_1\<close> (a
  purchase of the given plan for request 7), in the given state, and what the provider
  then reports.
\<close>

definition ex_payment :: "string \<Rightarrow> pay_status \<Rightarrow> payment" where
  "ex_payment pt st =
     \<lparr>p_id = 1, p_requestId = Some 7, p_matchReportId = Some 1, p_email = ''a@b.com'',
      p_stripePaymentIntentId = None, p_stripeSessionId = Some ''cs_1'',
      p_stripeCustomerId = None, p_stripeSubscriptionId = None, p_amount = 49,
      p_planType = pt, p_status = st, p_paidAt = None\<rparr>"

definition ex_pay_db :: "string \<Rightarrow> pay_status \<Rightarrow> db" where
  "ex_pay_db pt st = (ex_db 0)\<lparr>payments := [ex_payment pt st]\<rparr>"

definition ex_provider :: "string \<Rightarrow> provider" where
  "ex_provider pt =
     \<lparr>intent_succeeded = (\<lambda>k. True),
      retrieve_session = (\<lambda>k. if k = ''cs_1'' then Some (ex_session pt) else None),
      list_sessions = []\<rparr>"






text \<open>
  A token runtime for the examples: in place of HMAC-SHA256 a 16-bit checksum written as
  four hexadecimal digits, and a parser that reads the payload of the example and
  nothing else. The token is issued for \<open>a@b.com\<close> and request \<open>R1\<close>; its payload part
  has 106 characters, and the altered token differs from it in the last of them.
\<close>

definition ex_issued :: int where
  "ex_issued = 1700000000000"

definition ex_payload :: token_payload where
  "ex_payload =
     \<lparr>tp_email = ''a@b.com'', tp_requestId = Some ''R1'', tp_type = ''payment'',
      tp_timestamp = ex_issued\<rparr>"

definition ex_checksum :: "string \<Rightarrow> nat" where
  "ex_checksum s = foldl (\<lambda>h c. (h * 31 + of_char c) mod 65536) 7 s"

definition ex_hmac :: "string \<Rightarrow> string" where
  "ex_hmac s =
     (let h = ex_checksum s
      in map hex_digit [h div 4096, h div 256 mod 16, h div 16 mod 16, h mod 16])"

definition ex_runtime :: runtime where
  "ex_runtime =
     \<lparr>hmac_hex = ex_hmac,
      json_parse = (\<lambda>s. if s = json_stringify ex_payload then Some ex_payload else None)\<rparr>"

definition ex_token :: string where
  "ex_token = generateToken ex_runtime ex_issued ''a@b.com'' (Some ''R1'') ''payment''"

section \<open>Auxiliary facts\<close>

subsection \<open>Lists, ids and stores\<close>

lemma find_Some_mem: "find P xs = Some x \<Longrightarrow> x \<in> set xs \<and> P x"
  by (induction xs) (auto split: if_splits)

lemma find_None_all: "find P xs = None \<Longrightarrow> x \<in> set xs \<Longrightarrow> \<not> P x"
  by (induction xs) (auto split: if_splits)

lemma find_append_new: "find P xs = None \<Longrightarrow> P y \<Longrightarrow> find P (xs @ [y]) = Some y"
  by (induction xs) (auto split: if_splits)

lemma find_append_old: "find P xs = Some x \<Longrightarrow> find P (xs @ ys) = Some x"
  by (induction xs) (auto split: if_splits)

lemma fold_max_ge: "a \<le> fold max ids (a::nat)"
  by (induction ids arbitrary: a) (auto intro: order_trans[OF max.cobounded2])

lemma fold_max_mem: "x \<in> set ids \<Longrightarrow> x \<le> fold max ids (a::nat)"
proof (induction ids arbitrary: a)
  case Nil
  then show ?case by simp
next
  case (Cons y ys)
  show ?case
  proof (cases "x = y")
    case True
    have "y \<le> max y a" by simp
    also have "\<dots> \<le> fold max ys (max y a)" by (rule fold_max_ge)
    finally show ?thesis using True by simp
  next
    case False
    with Cons.prems have "x \<in> set ys" by simp
    then show ?thesis using Cons.IH by simp
  qed
qed

lemma fresh_id_new: "fresh_id ids \<notin> set ids"
proof
  assume "fresh_id ids \<in> set ids"
  then have "fresh_id ids \<le> fold max ids 0" by (rule fold_max_mem)
  then show False by (simp add: fresh_id_def)
qed

lemma find_replace_by_key:
  assumes "find P xs = Some u" and "P u'"
  shows "find P (map (\<lambda>x. if k x = k u then u' else x) xs) = Some u'"
  using assms by (induction xs) (auto split: if_splits)


subsection \<open>E-mail normalisation\<close>










subsection \<open>What a store write leaves alone\<close>

lemma save_payment_frame [simp]:
  "users (save_payment p s) = users s" "reports (save_payment p s) = reports s"
  "ledger (save_payment p s) = ledger s" "requests (save_payment p s) = requests s"
  "managed (save_payment p s) = managed s"
  by (simp_all add: save_payment_def)

lemma save_report_frame [simp]:
  "users (save_report r s) = users s" "payments (save_report r s) = payments s"
  "ledger (save_report r s) = ledger s" "requests (save_report r s) = requests s"
  "managed (save_report r s) = managed s"
  by (simp_all add: save_report_def)

lemma save_user_frame [simp]:
  "payments (save_user u s) = payments s" "reports (save_user u s) = reports s"
  "ledger (save_user u s) = ledger s" "requests (save_user u s) = requests s"
  "managed (save_user u s) = managed s"
  by (simp_all add: save_user_def)

lemma save_request_frame [simp]:
  "users (save_request b s) = users s" "payments (save_request b s) = payments s"
  "ledger (save_request b s) = ledger s" "reports (save_request b s) = reports s"
  "managed (save_request b s) = managed s"
  by (simp_all add: save_request_def)

lemma save_managed_frame [simp]:
  "users (save_managed m s) = users s" "payments (save_managed m s) = payments s"
  "ledger (save_managed m s) = ledger s" "reports (save_managed m s) = reports s"
  "requests (save_managed m s) = requests s"
  by (simp_all add: save_managed_def)

lemma create_tx_frame [simp]:
  "users (create_tx t s) = users s" "payments (create_tx t s) = payments s"
  "reports (create_tx t s) = reports s" "requests (create_tx t s) = requests s"
  "managed (create_tx t s) = managed s" "ledger (create_tx t s) = ledger s @ [t]"
  by (simp_all add: create_tx_def)

lemma find_user_by_email_frame:
  "users s' = users s \<Longrightarrow> find_user_by_email s' e = find_user_by_email s e"
  by (simp add: find_user_by_email_def)

lemma unlock_report_of_frame [simp]:
  "users (unlock_report_of ev p s) = users s" "payments (unlock_report_of ev p s) = payments s"
  "ledger (unlock_report_of ev p s) = ledger s" "requests (unlock_report_of ev p s) = requests s"
  by (simp_all add: unlock_report_of_def split: option.splits)

subsection \<open>Looking a user up after a save\<close>

lemma find_user_after_update:
  assumes "find_user_by_email s e = Some u" and "u_id u' = u_id u" and "u_email u' = e"
  shows "find_user_by_email (save_user u' s) e = Some u'"
proof -
  have mem: "u \<in> set (users s)"
    using assms(1) by (auto simp: find_user_by_email_def dest: find_Some_mem)
  then have "u_id u' \<in> set (map u_id (users s))" using assms(2) by force
  then have "users (save_user u' s) = map (\<lambda>x. if u_id x = u_id u then u' else x) (users s)"
    using assms(2) by (simp add: save_user_def)
  then show ?thesis
    using find_replace_by_key[of "\<lambda>x. u_email x = e" "users s" u u' u_id] assms
    by (simp add: find_user_by_email_def)
qed

lemma find_user_after_create:
  assumes "find_user_by_email s e = None" and "u_id u' = fresh_id (map u_id (users s))"
    and "u_email u' = e"
  shows "find_user_by_email (save_user u' s) e = Some u'"
proof -
  have "u_id u' \<notin> set (map u_id (users s))" using assms(2) fresh_id_new by metis
  then have "users (save_user u' s) = users s @ [u']" by (simp add: save_user_def)
  then show ?thesis
    using find_append_new[of "\<lambda>x. u_email x = e" "users s" u'] assms
    by (simp add: find_user_by_email_def)
qed

subsection \<open>The payment the webhook builds\<close>

lemma mark_succeeded_keeps [simp]:
  "p_planType (mark_succeeded ev ses p) = p_planType p"
  "p_email (mark_succeeded ev ses p) = p_email p"
  "p_id (mark_succeeded ev ses p) = p_id p"
  "p_matchReportId (mark_succeeded ev ses p) = p_matchReportId p"
  "p_requestId (mark_succeeded ev ses p) = p_requestId p"
  "p_amount (mark_succeeded ev ses p) = p_amount p"
  "p_stripeSessionId (mark_succeeded ev ses p) = p_stripeSessionId p"
  "p_status (mark_succeeded ev ses p) = Succeeded"
  by (simp_all add: mark_succeeded_def Let_def split: option.splits)

lemma create_regular_payment_fields:
  assumes "create_regular_payment ev s ses ref = Some p"
  shows "\<exists>i mr e. ref = Req i \<and> find_report_by_request s i = Some mr \<and>
           js_or (js_or (s_customer_email ses) (md_email ses)) (r_email mr) = Some e \<and>
           p_email p = norm_email e \<and> p_requestId p = Some i \<and>
           p_matchReportId p = Some (r_id mr) \<and> p_id p = fresh_id (map p_id (payments s)) \<and>
           p_stripeSessionId p = None \<and> p_status p = Succeeded \<and>
           p_planType p = (case js_or (md_planType ses) (Some ''one-time'') of
                             None \<Rightarrow> ''one-time'' | Some t \<Rightarrow> t)"
proof -
  from assms obtain i where ref: "ref = Req i"
    by (cases ref) (simp_all add: create_regular_payment_def)
  from assms ref obtain mr where mr: "find_report_by_request s i = Some mr"
    by (cases "find_report_by_request s i") (simp_all add: create_regular_payment_def)
  from assms ref mr obtain e
    where e: "js_or (js_or (s_customer_email ses) (md_email ses)) (r_email mr) = Some e"
    by (cases "js_or (js_or (s_customer_email ses) (md_email ses)) (r_email mr)")
       (simp_all add: create_regular_payment_def)
  from assms have p: "Some p = create_regular_payment ev s ses (Req i)" using ref by simp
  have "p_email p = norm_email e" "p_requestId p = Some i" "p_matchReportId p = Some (r_id mr)"
    "p_id p = fresh_id (map p_id (payments s))" "p_stripeSessionId p = None" "p_status p = Succeeded"
    "p_planType p = (case js_or (md_planType ses) (Some ''one-time'') of
                             None \<Rightarrow> ''one-time'' | Some t \<Rightarrow> t)"
    using p unfolding create_regular_payment_def by (simp_all add: mr e)
  then show ?thesis using ref mr e by blast
qed

lemma regular_plan_not_topup:
  assumes "create_regular_payment ev s ses ref = Some p" and "md_planType ses \<noteq> Some ''extra_credit''"
  shows "p_planType p \<noteq> ''extra_credit''"
proof -
  from create_regular_payment_fields[OF assms(1)]
  have pt: "p_planType p = (case js_or (md_planType ses) (Some ''one-time'') of
                             None \<Rightarrow> ''one-time'' | Some t \<Rightarrow> t)" by blast
  show ?thesis
  proof (cases "truthy (md_planType ses)")
    case True
    then obtain t where "md_planType ses = Some t" by (cases "md_planType ses") (simp_all add: truthy_def)
    then show ?thesis using pt True assms(2) by (simp add: js_or_def)
  next
    case False
    then show ?thesis using pt by (simp add: js_or_def)
  qed
qed

lemma regular_or_topup_standard:
  assumes "find_session_payment s ses = None" and "md_requestId ses = Some ref"
    and "md_planType ses \<noteq> Some ''extra_credit''"
    and "create_regular_payment ev s ses ref = Some p"
  shows "regular_or_topup ev ses s =
           (standard_purchase ev ses (mark_succeeded ev ses p)
              (save_payment (mark_succeeded ev ses p) (save_payment p s)), Received)"
  using assms regular_plan_not_topup[OF assms(4) assms(3)]
  by (simp add: regular_or_topup_def Let_def)

lemma regular_or_topup_topup:
  assumes "find_session_payment s ses = None" and "md_requestId ses = Some ref"
    and "md_planType ses = Some ''extra_credit''"
  shows "regular_or_topup ev ses s =
           (process_topup ev False ses (mark_succeeded ev ses (create_topup_payment s ses ref))
              (save_payment (mark_succeeded ev ses (create_topup_payment s ses ref))
                 (save_payment (create_topup_payment s ses ref) s)), Received)"
proof -
  have "p_planType (create_topup_payment s ses ref) = ''extra_credit''"
    by (simp add: create_topup_payment_def)
  then show ?thesis using assms by (simp add: regular_or_topup_def Let_def)
qed

lemma regular_or_topup_found:
  "find_session_payment s ses = Some p \<Longrightarrow> regular_or_topup ev ses s = (s, Received)"
  by (simp add: regular_or_topup_def)

lemma regular_or_topup_no_request:
  "find_session_payment s ses = None \<Longrightarrow> md_requestId ses = None \<Longrightarrow>
   regular_or_topup ev ses s = (s, Received)"
  by (simp add: regular_or_topup_def)

lemma regular_or_topup_not_created:
  "find_session_payment s ses = None \<Longrightarrow> md_requestId ses = Some ref \<Longrightarrow>
   md_planType ses \<noteq> Some ''extra_credit'' \<Longrightarrow> create_regular_payment ev s ses ref = None \<Longrightarrow>
   regular_or_topup ev ses s = (s, Received)"
  by (simp add: regular_or_topup_def)

lemma checkout_standard:
  "is_standard_purchase ses \<Longrightarrow> checkout_session_completed ev ses s = regular_or_topup ev ses s"
  by (simp add: is_standard_purchase_def checkout_session_completed_def)


subsection \<open>The subscription step of the webhook\<close>

lemma new_user_fields [simp]:
  "u_email (new_user s e) = e" "u_id (new_user s e) = fresh_id (map u_id (users s))"
  "matchCredits (new_user s e) = 0" "isVerified (new_user s e) = False"
  "subscriptionExpiresAt (new_user s e) = None" "subscriptionStatus (new_user s e) = SubNone"
  by (simp_all add: new_user_def)


lemma activate_subscription_ledger:
  "ledger (activate_subscription ev ses p s) =
     ledger s @
     [\<lparr>t_userId = u_id (find_or_new_user s (norm_email (p_email p))),
       t_requestId = None, t_matchReportId = None,
       t_email = u_email (find_or_new_user s (norm_email (p_email p))),
       creditsUsed = allocate_credits (plans ev) (p_planType p)
                       (matchCredits (find_or_new_user s (norm_email (p_email p))))
                     - matchCredits (find_or_new_user s (norm_email (p_email p))),
       creditsBefore = matchCredits (find_or_new_user s (norm_email (p_email p))),
       creditsAfter = allocate_credits (plans ev) (p_planType p)
                       (matchCredits (find_or_new_user s (norm_email (p_email p)))),
       transactionType = Added, reason = SubscriptionAllocation\<rparr>]"
  by (simp add: activate_subscription_def Let_def)

lemma activate_subscription_frame [simp]:
  "payments (activate_subscription ev ses p s) = payments s"
  "reports (activate_subscription ev ses p s) = reports s"
  "requests (activate_subscription ev ses p s) = requests s"
  by (simp_all add: activate_subscription_def Let_def)


lemma find_or_new_user_found:
  "find_user_by_email s e = Some u \<Longrightarrow> find_or_new_user s e = u"
  by (simp add: find_or_new_user_def)

lemma isSubscriptionPlan_cases:
  "isSubscriptionPlan pt \<longleftrightarrow>
     pt = ''starter_monthly'' \<or> pt = ''starter_annual'' \<or>
     pt = ''professional_monthly'' \<or> pt = ''professional_annual''"
  by (simp add: isSubscriptionPlan_def)


lemma isSubscriptionPlan_not_topup: "isSubscriptionPlan pt \<Longrightarrow> pt \<noteq> ''extra_credit''"
  by (auto simp: isSubscriptionPlan_cases)





lemma ex_norm_email: "norm_email ''a@b.com'' = ''a@b.com''"
  by (simp add: norm_email_def toLowerCase_def trim_def lower_char_def is_space_def)


lemma ex_is_standard: "pt \<noteq> ''extra_credit'' \<Longrightarrow> is_standard_purchase (ex_session pt)"
  by (simp add: is_standard_purchase_def ex_session_def)














lemma setMonth_next_jan31:
  "setMonth_next \<lparr>year = 2026, month = 0, day = 31, tod = 0\<rparr> =
     \<lparr>year = 2026, month = 2, day = 3, tod = 0\<rparr>"
  by (simp add: setMonth_next_def make_day.simps days_in_month_def is_leap_def)



subsection \<open>Replaying a checkout event\<close>

lemma save_user_cong: "users s' = users s \<Longrightarrow> users (save_user u s') = users (save_user u s)"
  by (simp add: save_user_def)

lemma map_replace_absent:
  "v \<notin> set (map k xs) \<Longrightarrow> map (\<lambda>x. if k x = v then u else x) xs = xs"
  by (induction xs) auto

lemma create_regular_payment_None_env:
  assumes "create_regular_payment ev1 s ses ref = None"
  shows "create_regular_payment ev2 s ses ref = None"
proof (cases ref)
  case General
  then show ?thesis by (simp add: create_regular_payment_def)
next
  case (Req i)
  show ?thesis
  proof (cases "find_report_by_request s i")
    case None
    then show ?thesis using Req by (simp add: create_regular_payment_def)
  next
    case (Some mr)
    then show ?thesis
      using Req assms
      by (cases "js_or (js_or (s_customer_email ses) (md_email ses)) (r_email mr)")
         (simp_all add: create_regular_payment_def)
  qed
qed

lemma save_user_idem: "users (save_user u (save_user u s)) = users (save_user u s)"
proof (cases "u_id u \<in> set (map u_id (users s))")
  case True
  then have 1: "users (save_user u s) = map (\<lambda>x. if u_id x = u_id u then u else x) (users s)"
    by (simp add: save_user_def)
  have "u_id u \<in> set (map u_id (map (\<lambda>x. if u_id x = u_id u then u else x) (users s)))"
    using True by (auto simp: image_iff)
  then show ?thesis
    using 1 by (simp add: save_user_def comp_def)
next
  case False
  then have 1: "users (save_user u s) = users s @ [u]" by (simp add: save_user_def)
  have "map (\<lambda>x. if u_id x = u_id u then u else x) (users s) = users s"
    using False by (rule map_replace_absent)
  then show ?thesis using 1 by (simp add: save_user_def)
qed

lemma save_payment_mem: "p \<in> set (payments (save_payment p s))"
  by (auto simp: save_payment_def image_iff)

lemma find_exists: "x \<in> set xs \<Longrightarrow> P x \<Longrightarrow> find P xs \<noteq> None"
  by (auto simp: find_None_iff)

lemma find_session_payment_exists:
  assumes "p \<in> set (payments s)" and "md_requestId ses = Some ref"
    and "matches_cond p (cond_of ref)"
  shows "find_session_payment s ses \<noteq> None"
proof -
  have c: "searchConditions ses \<noteq> []" using assms(2) by (simp add: searchConditions_def)
  have "list_ex (matches_cond p) (searchConditions ses)"
    using assms(2,3) by (simp add: searchConditions_def)
  then have "find (\<lambda>p. list_ex (matches_cond p) (searchConditions ses)) (payments s) \<noteq> None"
    using assms(1) by (rule_tac find_exists)
  then show ?thesis
    using c by (auto simp: find_session_payment_def split: option.splits)
qed

lemma auto_generate_payments [simp]:
  "payments (auto_generate ev u rid br mr s) = payments s"
  by (simp add: auto_generate_def Let_def)

lemma unlock_after_topup_payments [simp]:
  "payments (unlock_after_topup ev False u p rid s) = payments s"
  by (simp add: unlock_after_topup_def Let_def split: option.splits prod.splits)

lemma process_topup_payments [simp]:
  "payments (process_topup ev False ses p s) = payments s"
  by (simp add: process_topup_def Let_def split: option.splits)

lemma standard_purchase_payments [simp]:
  "payments (standard_purchase ev ses p s) = payments s"
  by (simp add: standard_purchase_def Let_def)

lemma create_topup_payment_matches:
  "matches_cond (mark_succeeded ev ses (create_topup_payment s ses ref)) (cond_of ref)"
  by (cases ref) (simp_all add: matches_cond_def cond_of_def create_topup_payment_def)

lemma regular_or_topup_replay:
  "regular_or_topup ev2 ses (fst (regular_or_topup ev1 ses s)) =
     (fst (regular_or_topup ev1 ses s), Received)"
proof (cases "find_session_payment s ses")
  case (Some p)
  then show ?thesis by (simp add: regular_or_topup_found)
next
  case None
  show ?thesis
  proof (cases "md_requestId ses")
    case n: None
    then show ?thesis using None by (simp add: regular_or_topup_no_request)
  next
    case (Some ref)
    show ?thesis
    proof (cases "md_planType ses = Some ''extra_credit''")
      case True
      let ?p = "mark_succeeded ev1 ses (create_topup_payment s ses ref)"
      have "?p \<in> set (payments (fst (regular_or_topup ev1 ses s)))"
        by (simp add: regular_or_topup_topup[OF None Some True] save_payment_mem)
      from find_session_payment_exists[OF this Some create_topup_payment_matches]
      obtain q where "find_session_payment (fst (regular_or_topup ev1 ses s)) ses = Some q"
        by auto
      then show ?thesis by (rule regular_or_topup_found)
    next
      case False
      show ?thesis
      proof (cases "create_regular_payment ev1 s ses ref")
        case n: None
        then show ?thesis
          using None Some False create_regular_payment_None_env[OF n, of ev2]
          by (simp add: regular_or_topup_not_created)
      next
        case c: (Some p)
        let ?p = "mark_succeeded ev1 ses p"
        from create_regular_payment_fields[OF c] obtain i where
          i: "ref = Req i" "p_requestId p = Some i" by blast
        have m: "matches_cond ?p (cond_of ref)"
          using i by (simp add: matches_cond_def cond_of_def)
        have "?p \<in> set (payments (fst (regular_or_topup ev1 ses s)))"
          by (simp add: regular_or_topup_standard[OF None Some False c] save_payment_mem)
        from find_session_payment_exists[OF this Some m]
        obtain q where "find_session_payment (fst (regular_or_topup ev1 ses s)) ses = Some q"
          by auto
        then show ?thesis by (rule regular_or_topup_found)
      qed
    qed
  qed
qed

lemma find_or_new_user_saved:
  assumes "u_email u' = e" and "u_id u' = u_id (find_or_new_user s e)"
  shows "find_user_by_email (save_user u' s) e = Some u'"
proof (cases "find_user_by_email s e")
  case None
  then show ?thesis
    using assms find_user_after_create[OF None, of u'] by (simp add: find_or_new_user_def)
next
  case (Some u)
  then show ?thesis
    using assms find_user_after_update[OF Some, of u'] by (simp add: find_or_new_user_def)
qed

lemma find_or_new_user_has_email: "u_email (find_or_new_user s e) = e"
  by (auto simp: find_or_new_user_def find_user_by_email_def split: option.splits
        dest: find_Some_mem)

lemma managed_service_fee_replay:
  "users (fst (managed_service_fee ev2 ses (fst (managed_service_fee ev1 ses s)))) =
     users (fst (managed_service_fee ev1 ses s))
   \<and> ledger (fst (managed_service_fee ev2 ses (fst (managed_service_fee ev1 ses s)))) =
     ledger (fst (managed_service_fee ev1 ses s))
   \<and> reports (fst (managed_service_fee ev2 ses (fst (managed_service_fee ev1 ses s)))) =
     reports (fst (managed_service_fee ev1 ses s))"
proof (cases "md_requestId ses")
  case None
  then show ?thesis by (simp add: managed_service_fee_def)
next
  case (Some ref)
  show ?thesis
  proof (cases ref)
    case General
    then show ?thesis using Some by (simp add: managed_service_fee_def)
  next
    case (Req i)
    show ?thesis
    proof (cases "find_managed_by_id s i")
      case None
      then show ?thesis using Some Req by (simp add: managed_service_fee_def)
    next
      case ms: (Some ms)
      define e where "e = customer_email ses ms"
      define u where "u = (find_or_new_user s e)\<lparr>isVerified := True\<rparr>"
      define ms2 where "ms2 = (if m_userId ms \<noteq> Some (u_id u)
                           then ms\<lparr>m_userId := Some (u_id u)\<rparr> else ms)
                          \<lparr>serviceFeeStatus := ''paid'',
                               serviceFeePaymentId := s_payment_intent ses,
                               serviceFeePaidAt := Some (now ev1),
                               m_status := ''in_progress'', m_stage := ''review''\<rparr>"
      define s1 where "s1 = fst (managed_service_fee ev1 ses s)"
      have u1: "users s1 = users (save_user u s)" and l1: "ledger s1 = ledger s"
        and r1: "reports s1 = reports s" and m1: "managed s1 = managed (save_managed ms2 s)"
        unfolding s1_def u_def e_def ms2_def using Some Req ms
        by (simp_all add: managed_service_fee_def Let_def save_managed_def)
      have mid: "m_id ms = i"
        using ms by (auto simp: find_managed_by_id_def dest: find_Some_mem)
      have mem: "ms \<in> set (managed s)"
        using ms by (auto simp: find_managed_by_id_def dest: find_Some_mem)
      have "managed (save_managed ms2 s) = map (\<lambda>x. if m_id x = m_id ms then ms2 else x) (managed s)"
        using mem by (auto simp: save_managed_def ms2_def)
      then have f2: "find_managed_by_id s1 i = Some ms2"
        using find_replace_by_key[of "\<lambda>m. m_id m = i" "managed s" ms ms2 m_id] ms mid m1
        by (simp add: find_managed_by_id_def ms2_def)
      have e2: "customer_email ses ms2 = e"
        by (simp add: customer_email_def e_def ms2_def)
      have ue: "u_email u = e" by (simp add: u_def find_or_new_user_has_email)
      have "find_user_by_email (save_user u s) e = Some u"
        by (rule find_or_new_user_saved) (simp_all add: u_def find_or_new_user_has_email)
      then have fu: "find_user_by_email s1 e = Some u"
        using u1 by (simp add: find_user_by_email_def)
      have uu: "(find_or_new_user s1 e)\<lparr>isVerified := True\<rparr> = u"
        using fu by (simp add: find_or_new_user_def u_def)
      have "users (fst (managed_service_fee ev2 ses s1)) = users (save_user u s1)"
        using Some Req f2 e2 uu by (simp add: managed_service_fee_def Let_def)
      also have "\<dots> = users (save_user u (save_user u s))"
        using u1 by (rule save_user_cong)
      also have "\<dots> = users s1" using u1 by (simp add: save_user_idem)
      finally have A: "users (fst (managed_service_fee ev2 ses s1)) = users s1" .
      have B: "ledger (fst (managed_service_fee ev2 ses s1)) = ledger s1"
        "reports (fst (managed_service_fee ev2 ses s1)) = reports s1"
        using Some Req f2 by (simp_all add: managed_service_fee_def Let_def)
      show ?thesis using A B by (simp add: s1_def)
    qed
  qed
qed

lemma managed_service_savings_fee_frame:
  "users (fst (managed_service_savings_fee ev ses s)) = users s"
  "ledger (fst (managed_service_savings_fee ev ses s)) = ledger s"
  "reports (fst (managed_service_savings_fee ev ses s)) = reports s"
  by (simp_all add: managed_service_savings_fee_def Let_def split: option.splits req_ref.splits)

subsection \<open>Spending a credit\<close>

lemma write_report_frame [simp]:
  "users (write_report ev existing i br st tops s) = users s"
  "ledger (write_report ev existing i br st tops s) = ledger s"
  "payments (write_report ev existing i br st tops s) = payments s"
  by (simp_all add: write_report_def split: option.splits)



subsection \<open>The top-up of a request\<close>



lemma find_report_by_request_frame:
  "reports s' = reports s \<Longrightarrow> find_report_by_request s' rid = find_report_by_request s rid"
  by (simp add: find_report_by_request_def)

lemma find_request_by_id_frame:
  "requests s' = requests s \<Longrightarrow> find_request_by_id s' rid = find_request_by_id s rid"
  by (simp add: find_request_by_id_def)

lemma hasActivePlan_credits [simp]:
  "hasActivePlan ev (u\<lparr>matchCredits := c\<rparr>) = hasActivePlan ev u"
  by (simp add: hasActivePlan_def)




lemma create_topup_payment_fields [simp]:
  "p_requestId (create_topup_payment s ses (Req i)) = Some i"
  "p_planType (create_topup_payment s ses ref) = ''extra_credit''"
  "p_amount (create_topup_payment s ses ref) =
     (case s_amount_total ses of None \<Rightarrow> 0 | Some a \<Rightarrow> of_int a / 100)"
  by (simp_all add: create_topup_payment_def)

lemma creditsToAdd_mark_succeeded [simp]:
  "creditsToAdd ses (mark_succeeded ev ses p) = creditsToAdd ses p"
  by (simp add: creditsToAdd_def cong: option.case_cong if_cong)







subsection \<open>The base64url coding\<close>


















subsection \<open>Splitting a token\<close>


subsection \<open>Verifying a token\<close>




subsection \<open>The example token\<close>

lemmas char_eval = char_of_eq_iff take_bit_eq_mod

lemma ex_json:
  "json_stringify ex_payload =
     ''{\"email\":\"a@b.com\",\"requestId\":\"R1\",\"type\":\"payment\",\"timestamp\":1700000000000}''"
  by (simp add: json_stringify_def ex_payload_def ex_issued_def json_int_def json_string_def
        json_escape_def digits_of.simps char_eval)

lemma ex_hmac_json: "ex_hmac (json_stringify ex_payload) = ''949a''"
  by (simp add: ex_json ex_hmac_def ex_checksum_def hex_digit_def char_eval)

lemma ex_encoded:
  "base64url_encode (json_stringify ex_payload) =
     ''eyJlbWFpbCI6ImFAYi5jb20iLCJyZXF1ZXN0SWQiOiJSMSIsInR5cGUiOiJwYXltZW50IiwidGltZXN0YW1wIjoxNzAwMDAwMDAwMDAwfQ''"
  by (simp add: ex_json base64url_encode_def b64_char_def char_eval)




lemma ex_token_text:
  "ex_token =
     ''eyJlbWFpbCI6ImFAYi5jb20iLCJyZXF1ZXN0SWQiOiJSMSIsInR5cGUiOiJwYXltZW50IiwidGltZXN0YW1wIjoxNzAwMDAwMDAwMDAwfQ.949a''"
proof -
  have "ex_token =
          base64url_encode (json_stringify ex_payload) @ ''.'' @ ex_hmac (json_stringify ex_payload)"
    by (simp add: ex_token_def generateToken_def ex_payload_def ex_runtime_def truthy_def Let_def
          ex_norm_email)
  then show ?thesis by (simp add: ex_encoded ex_hmac_json)
qed



lemma ex_token_split:
  "fst (split_token ex_token) = base64url_encode (json_stringify ex_payload)"
  by (simp add: ex_token_text ex_encoded split_token_def)

section \<open>The claims\<close>

text \<open>
  C10. An \<open>invoice.payment_succeeded\<close> event whose user is found (by the stored
  subscription id, else by the customer's e-mail) sets that user's balance to the
  constant 25 and the subscription status to active, whatever the plans grant; every
  other field of the user, the expiry among them, stays, and the ledger gets no entry.
\<close>

theorem invoice_resets_balance_to_25:
  assumes "truthy (i_subscription iv)" and "find_invoice_user s iv = Some u"
  shows "handleWebhook ev (Verified (InvoicePaymentSucceeded iv)) s =
           (s\<lparr>users := map (\<lambda>x. if u_id x = u_id u
                                then u\<lparr>matchCredits := 25, subscriptionStatus := SubActive\<rparr>
                                else x) (users s)\<rparr>, Received)"
proof -
  have "u \<in> set (users s)"
    using assms(2)
    by (auto simp: find_invoice_user_def find_user_by_email_def
          split: option.splits if_splits dest: find_Some_mem)
  then show ?thesis
    using assms by (simp add: handleWebhook_def invoice_payment_succeeded_def save_user_def)
qed

theorem invoice_resets_balance_to_25_witness:
  "handleWebhook ex_env (Verified (InvoicePaymentSucceeded ex_invoice)) ex_subscriber_db =
     (ex_subscriber_db\<lparr>users := [ex_subscriber\<lparr>matchCredits := 25, subscriptionStatus := SubActive\<rparr>]\<rparr>,
      Received)
   \<and> subscriptionExpiresAt (ex_subscriber\<lparr>matchCredits := 25, subscriptionStatus := SubActive\<rparr>)
       = Some \<lparr>year = 2025, month = 11, day = 31, tod = 0\<rparr>
   \<and> ledger (fst (handleWebhook ex_env (Verified (InvoicePaymentSucceeded ex_invoice)) ex_subscriber_db)) = []"
  using invoice_resets_balance_to_25[of ex_invoice ex_subscriber_db ex_subscriber ex_env]
  by (simp add: ex_invoice_def ex_subscriber_db_def ex_subscriber_def truthy_def
        find_invoice_user_def)

text \<open>
  C9. The sync-one endpoint on a payment that has already succeeded answers with that
  payment and leaves every store as it is.
\<close>

theorem sync_of_succeeded_payment_is_noop:
  assumes "find_sync_payment s requestId u = Some p" and "p_status p = Succeeded"
  shows "syncPaymentStatus ev pr requestId u s = (s, AlreadyProcessed p)"
  using assms by (simp add: syncPaymentStatus_def)

theorem sync_of_succeeded_payment_is_noop_witness:
  "syncPaymentStatus ex_env (ex_provider ''one-time'') 7 (ex_user 0) (ex_pay_db ''one-time'' Succeeded) =
     (ex_pay_db ''one-time'' Succeeded, AlreadyProcessed (ex_payment ''one-time'' Succeeded))"
  using sync_of_succeeded_payment_is_noop[of "ex_pay_db ''one-time'' Succeeded" 7 "ex_user 0"
      "ex_payment ''one-time'' Succeeded" ex_env "ex_provider ''one-time''"]
  by (simp add: find_sync_payment_def ex_pay_db_def ex_db_def ex_payment_def ex_user_def
        norm_email_def toLowerCase_def trim_def lower_char_def is_space_def)





text \<open>
  C1. Handling the same \<open>checkout.session.completed\<close> event a second time (at any later
  clock reading, whatever the provider and the matching service answer then) leaves the
  accounts (balances and expiries), the ledger and the reports exactly as the first
  handling left them: no credit is granted twice, no ledger entry is added, no report is
  unlocked again.
\<close>

theorem checkout_replay_is_idempotent:
  "users (fst (handleWebhook ev2 (Verified (CheckoutSessionCompleted ses))
                (fst (handleWebhook ev1 (Verified (CheckoutSessionCompleted ses)) s)))) =
     users (fst (handleWebhook ev1 (Verified (CheckoutSessionCompleted ses)) s))
   \<and> ledger (fst (handleWebhook ev2 (Verified (CheckoutSessionCompleted ses))
                (fst (handleWebhook ev1 (Verified (CheckoutSessionCompleted ses)) s)))) =
     ledger (fst (handleWebhook ev1 (Verified (CheckoutSessionCompleted ses)) s))
   \<and> reports (fst (handleWebhook ev2 (Verified (CheckoutSessionCompleted ses))
                (fst (handleWebhook ev1 (Verified (CheckoutSessionCompleted ses)) s)))) =
     reports (fst (handleWebhook ev1 (Verified (CheckoutSessionCompleted ses)) s))"
proof (cases "md_type ses = Some ''managed_service''")
  case True
  then show ?thesis
    using managed_service_fee_replay[of ev2 ses ev1 s]
    by (simp add: handleWebhook_def checkout_session_completed_def)
next
  case False
  show ?thesis
  proof (cases "md_type ses = Some ''managed_service_savings_fee'' \<or>
                md_paymentType ses = Some ''savings_fee''")
    case True
    then show ?thesis
      using False
      by (simp add: handleWebhook_def checkout_session_completed_def
            managed_service_savings_fee_frame)
  next
    case f: False
    then show ?thesis
      using False
      by (simp add: handleWebhook_def checkout_session_completed_def regular_or_topup_replay)
  qed
qed

text \<open>
  C2 (the code falls short of the claim). At checkout-session creation a pending payment
  record is stored under the session's id; on the \<open>checkout.session.completed\<close> event of
  that session the webhook finds the record and ends: the record stays pending and the
  report stays pending.
\<close>

theorem webhook_leaves_found_payment_pending:
  "handleWebhook ex_env (Verified (CheckoutSessionCompleted (ex_session ''one-time'')))
     (ex_pay_db ''one-time'' Pending) = (ex_pay_db ''one-time'' Pending, Received)
   \<and> map p_status (payments (ex_pay_db ''one-time'' Pending)) = [Pending]
   \<and> map r_status (reports (ex_pay_db ''one-time'' Pending)) = [RPending]"
proof -
  have "find_session_payment (ex_pay_db ''one-time'' Pending) (ex_session ''one-time'') =
          Some (ex_payment ''one-time'' Pending)"
    by (simp add: find_session_payment_def ex_pay_db_def ex_session_def ex_payment_def truthy_def)
  then show ?thesis
    by (simp add: handleWebhook_def checkout_standard ex_is_standard regular_or_topup_found)
       (simp add: ex_pay_db_def ex_db_def ex_payment_def ex_report_def)
qed

text \<open>
  C3 (the code falls short of the claim). A paid invoice of a subscription moves the
  balance of the subscriber from 7 to 25 and writes no ledger entry: afterwards the
  balance is not the old balance plus the signed sum of the new ledger entries.
\<close>

theorem invoice_changes_balance_without_ledger_entry:
  "map matchCredits (users ex_subscriber_db) = [7]
   \<and> map matchCredits
        (users (fst (handleWebhook ex_env (Verified (InvoicePaymentSucceeded ex_invoice))
                       ex_subscriber_db))) = [25]
   \<and> ledger (fst (handleWebhook ex_env (Verified (InvoicePaymentSucceeded ex_invoice))
                       ex_subscriber_db)) = ledger ex_subscriber_db
   \<and> 25 \<noteq> 7 + (ledger_sum 1 (ledger (fst (handleWebhook ex_env
                       (Verified (InvoicePaymentSucceeded ex_invoice)) ex_subscriber_db)))
                 - ledger_sum 1 (ledger ex_subscriber_db))"
  by (simp add: handleWebhook_def invoice_payment_succeeded_def find_invoice_user_def
        save_user_def ex_subscriber_db_def ex_subscriber_def ex_invoice_def truthy_def
        ledger_sum_def)










end
